theory Spec2Isabelle
  imports Complex_Main "HOL-Library.Sublist"
begin

section \<open>Numbers and strings of the scoring engine\<close>

text \<open>
  The scoring functions of \<^verbatim>\<open>src/app/utils/seo-helpers.ts\<close> compute with JavaScript
  numbers. Every number they meet is a finite value built from integers and the weight
  table by sums, products and guarded quotients, so a number is modelled as an exact
  rational; the one place where a value that is not a number can arise
  (\<^verbatim>\<open>calculateSeoScore\<close>) has the extra result \<open>NaN\<close>. A string is a list of
  characters, read as ASCII: \<^verbatim>\<open>toLowerCase\<close> maps the letters A to Z and leaves every
  other character as it is, and the white space of \<^verbatim>\<open>\s\<close> is the six ASCII characters
  of that class.
\<close>

type_synonym number = rat

definition Math_round :: "number \<Rightarrow> number" where
  \<comment> \<open>\<^verbatim>\<open>Math.round\<close>: the nearest integer, a half rounded up\<close>
  "Math_round x = of_int \<lfloor>x + 1 / 2\<rfloor>"

definition Math_max :: "number \<Rightarrow> number \<Rightarrow> number" where
  "Math_max a b = (if a < b then b else a)"

definition Math_min :: "number \<Rightarrow> number \<Rightarrow> number" where
  "Math_min a b = (if b < a then b else a)"

datatype 'a optional = Undefined | Null | Given 'a
  \<comment> \<open>a parameter of type \<^verbatim>\<open>T | null | undefined\<close>\<close>

definition lowerChar :: "char \<Rightarrow> char" where
  "lowerChar c =
     (case map_of (zip ''ABCDEFGHIJKLMNOPQRSTUVWXYZ'' ''abcdefghijklmnopqrstuvwxyz'') c of
        Some l \<Rightarrow> l
      | None \<Rightarrow> c)"

definition toLowerCase :: "string \<Rightarrow> string" where
  "toLowerCase s = map lowerChar s"

definition includes_str :: "string \<Rightarrow> string \<Rightarrow> bool" where
  \<comment> \<open>\<^verbatim>\<open>s.includes(k)\<close>: some suffix of \<open>s\<close> starts with \<open>k\<close>\<close>
  "includes_str s k = list_ex (prefix k) (suffixes s)"

definition is_space :: "char \<Rightarrow> bool" where
  \<comment> \<open>the class \<^verbatim>\<open>\s\<close>: tab, line feed, vertical tab, form feed, carriage return, space\<close>
  "is_space c = (c \<in> set [CHR 0x09, CHR 0x0A, CHR 0x0B, CHR 0x0C, CHR 0x0D, CHR '' ''])"

definition is_sentence_end :: "char \<Rightarrow> bool" where
  \<comment> \<open>the class \<^verbatim>\<open>[.!?]\<close>\<close>
  "is_sentence_end c = (c \<in> set ''.!?'')"

function split_runs :: "(char \<Rightarrow> bool) \<Rightarrow> string \<Rightarrow> string \<Rightarrow> string list" where
  \<comment> \<open>\<^verbatim>\<open>s.split(/[sep]+/)\<close>: the pieces between the maximal runs of separators;
      \<open>cur\<close> is the piece being read\<close>
  "split_runs sep cur [] = [cur]"
| "split_runs sep cur (c # cs) =
     (if sep c then cur # split_runs sep [] (dropWhile sep cs)
      else split_runs sep (cur @ [c]) cs)"
  by pat_completeness auto
termination
  by (relation "measure (\<lambda>(sep, cur, s). length s)")
    (auto simp: length_dropWhile_le le_imp_less_Suc)

definition words :: "string \<Rightarrow> string list" where
  \<comment> \<open>\<^verbatim>\<open>s.split(/\s+/).filter(Boolean)\<close>\<close>
  "words s = filter (\<lambda>w. w \<noteq> []) (split_runs is_space [] s)"

definition trim :: "string \<Rightarrow> string" where
  "trim s = rev (dropWhile is_space (rev (dropWhile is_space s)))"

fun split_blank_lines :: "string \<Rightarrow> string \<Rightarrow> string list" where
  \<comment> \<open>\<^verbatim>\<open>s.split(/\n\s*\n/)\<close>: a separator starts at a line feed and ends at the last
      line feed of the white space that follows it, when there is one\<close>
  "split_blank_lines cur [] = [cur]"
| "split_blank_lines cur (c # cs) =
     (let run = takeWhile is_space cs in
      if c = CHR 0x0A \<and> CHR 0x0A \<in> set run
      then cur # split_blank_lines []
             (drop (length run - length (takeWhile (\<lambda>x. x \<noteq> CHR 0x0A) (rev run))) cs)
      else split_blank_lines (cur @ [c]) cs)"

fun search_from :: "string \<Rightarrow> string \<Rightarrow> nat \<Rightarrow> int" where
  \<comment> \<open>the first index at which \<open>k\<close> occurs in a text whose first character has index
      \<open>i\<close>, or \<open>-1\<close>\<close>
  "search_from k [] i = (if k = [] then int i else - 1)"
| "search_from k (c # cs) i =
     (if prefix k (c # cs) then int i else search_from k cs (Suc i))"

definition indexOf :: "string \<Rightarrow> string \<Rightarrow> int \<Rightarrow> int" where
  \<comment> \<open>\<^verbatim>\<open>s.indexOf(k, position)\<close>; the position is clamped to the string\<close>
  "indexOf s k position =
     (let start = nat (min (max position 0) (int (length s)))
      in search_from k (drop start s) start)"

section \<open>The scoring engine\<close>

subsection \<open>calculateSeoScore\<close>

definition weights :: "(string \<times> number) list" where
  "weights =
     [(''metaTitle'', 10 / 100),
      (''metaDescription'', 10 / 100),
      (''headings'', 8 / 100),
      (''contentQuality'', 12 / 100),
      (''keywordDensity'', 10 / 100),
      (''internalLinks'', 8 / 100),
      (''externalLinks'', 5 / 100),
      (''imagesAlt'', 5 / 100),
      (''pageSpeed'', 10 / 100),
      (''mobileCompatibility'', 8 / 100),
      (''security'', 7 / 100),
      (''socialMetadata'', 7 / 100)]"

definition Object_prototype :: "string list" where
  \<comment> \<open>the property names every object literal inherits; \<^verbatim>\<open>weights\<close> is an object
      literal, and the operator \<^verbatim>\<open>in\<close> sees inherited properties too\<close>
  "Object_prototype =
     [''constructor'', ''hasOwnProperty'', ''isPrototypeOf'', ''propertyIsEnumerable'',
      ''toLocaleString'', ''toString'', ''valueOf'', ''__proto__'',
      ''__defineGetter__'', ''__defineSetter__'', ''__lookupGetter__'', ''__lookupSetter__'']"

datatype property = Weight number | Inherited
  \<comment> \<open>the value of \<^verbatim>\<open>weights[factor]\<close>: a weight of the table, or a function or object
      inherited from the prototype\<close>

definition weights_get :: "string \<Rightarrow> property option" where
  \<comment> \<open>\<open>None\<close> when \<^verbatim>\<open>factor in weights\<close> is false\<close>
  "weights_get factor =
     (case map_of weights factor of
        Some w \<Rightarrow> Some (Weight w)
      | None \<Rightarrow> if factor \<in> set Object_prototype then Some Inherited else None)"

datatype totals = Totals number number | Poisoned
  \<comment> \<open>\<open>Totals totalWeightedScore totalWeightApplied\<close> while both are numbers. Once an
      inherited property has been used as a weight, \<^verbatim>\<open>score * weight\<close> is NaN, so
      \<^verbatim>\<open>totalWeightedScore\<close> is NaN from then on, and \<^verbatim>\<open>totalWeightApplied += weight\<close>
      has made \<^verbatim>\<open>totalWeightApplied\<close> a string, which stays one: \<open>Poisoned\<close>\<close>

datatype score = Num number | NaN

fun add_factor :: "totals \<Rightarrow> string \<times> number \<Rightarrow> totals" where
  \<comment> \<open>the body of the \<^verbatim>\<open>forEach\<close>; \<^verbatim>\<open>typeof score === 'number'\<close> holds of every
      value of the parameter's type\<close>
  "add_factor Poisoned (factor, score) =
     (case weights_get factor of None \<Rightarrow> Poisoned | Some _ \<Rightarrow> Poisoned)"
| "add_factor (Totals totalWeightedScore totalWeightApplied) (factor, score) =
     (case weights_get factor of
        None \<Rightarrow> Totals totalWeightedScore totalWeightApplied
      | Some (Weight weight) \<Rightarrow>
          Totals (totalWeightedScore + score * weight) (totalWeightApplied + weight)
      | Some Inherited \<Rightarrow> Poisoned)"

definition calculateSeoScore :: "(string \<times> number) list \<Rightarrow> score" where
  \<comment> \<open>\<open>factors\<close> is \<^verbatim>\<open>Object.entries(factors)\<close>. With \<open>Poisoned\<close> totals the test
      \<^verbatim>\<open>totalWeightApplied > 0\<close> compares a string that is no numeral with a number and
      is false, and \<^verbatim>\<open>Math.round(NaN)\<close> is NaN\<close>
  "calculateSeoScore factors =
     (case foldl add_factor (Totals 0 0) factors of
        Totals totalWeightedScore totalWeightApplied \<Rightarrow>
          if totalWeightApplied > 0 \<and> totalWeightApplied < 1
          then Num (Math_round (totalWeightedScore / totalWeightApplied))
          else Num (Math_round totalWeightedScore)
      | Poisoned \<Rightarrow> NaN)"

subsection \<open>calculateTitleScore and calculateDescriptionScore\<close>

definition calculateTitleScore :: "string optional \<Rightarrow> string list \<Rightarrow> number" where
  "calculateTitleScore title targetKeywords =
     (case title of
        Undefined \<Rightarrow> 0
      | Null \<Rightarrow> 0
      | Given t \<Rightarrow>
          if t = [] then 0
          else
            let len = length t;
                score = (if len \<ge> 50 \<and> len \<le> 60 then 100
                         else if len \<ge> 40 \<and> len \<le> 70 then 70
                         else if len > 0 then 40
                         else 0)
            in if length targetKeywords > 0
               then
                 let titleLower = toLowerCase t;
                     keywordMatch =
                       list_ex (\<lambda>keyword. includes_str titleLower (toLowerCase keyword))
                         targetKeywords
                 in Math_round ((if keywordMatch then score + 100 else score) / 2)
               else score)"

definition calculateDescriptionScore :: "string optional \<Rightarrow> string list \<Rightarrow> number" where
  "calculateDescriptionScore description targetKeywords =
     (case description of
        Undefined \<Rightarrow> 0
      | Null \<Rightarrow> 0
      | Given d \<Rightarrow>
          if d = [] then 0
          else
            let len = length d;
                score = (if len \<ge> 150 \<and> len \<le> 160 then 100
                         else if len \<ge> 120 \<and> len \<le> 170 then 70
                         else if len > 0 then 40
                         else 0)
            in if length targetKeywords > 0
               then
                 let descLower = toLowerCase d;
                     keywordMatch =
                       list_ex (\<lambda>keyword. includes_str descLower (toLowerCase keyword))
                         targetKeywords
                 in Math_round ((if keywordMatch then score + 100 else score) / 2)
               else score)"

subsection \<open>calculateHeadingsScore\<close>

text \<open>
  The parameter of \<^verbatim>\<open>calculateHeadingsScore\<close> has the type \<^verbatim>\<open>any\<close>, so it ranges over
  every value: the primitive values, arrays and objects (an object is the list of its own
  properties). Reading a property of \<^verbatim>\<open>null\<close> or \<^verbatim>\<open>undefined\<close> throws a TypeError;
  an exception is the left summand of the result.
\<close>

datatype jsval =
    JUndefined
  | JNull
  | JBool bool
  | JNum number
  | JNaN
  | JStr string
  | JArr "jsval list"
  | JObj "(string \<times> jsval) list"

datatype exn = TypeError | SyntaxError | SecurityError | QuotaExceededError

fun truthy :: "jsval \<Rightarrow> bool" where
  "truthy JUndefined = False"
| "truthy JNull = False"
| "truthy (JBool b) = b"
| "truthy (JNum n) = (n \<noteq> 0)"
| "truthy JNaN = False"
| "truthy (JStr s) = (s \<noteq> [])"
| "truthy (JArr xs) = True"
| "truthy (JObj ps) = True"

fun Array_isArray :: "jsval \<Rightarrow> bool" where
  "Array_isArray (JArr xs) = True"
| "Array_isArray v = False"

fun get_type :: "jsval \<Rightarrow> exn + jsval" where
  \<comment> \<open>\<^verbatim>\<open>h.type\<close>\<close>
  "get_type JUndefined = Inl TypeError"
| "get_type JNull = Inl TypeError"
| "get_type (JObj ps) = Inr (case map_of ps ''type'' of Some v \<Rightarrow> v | None \<Rightarrow> JUndefined)"
| "get_type v = Inr JUndefined"

fun some_type :: "string \<Rightarrow> jsval list \<Rightarrow> exn + bool" where
  \<comment> \<open>\<^verbatim>\<open>headings.some(h => h.type === t)\<close>: stops at the first match\<close>
  "some_type t [] = Inr False"
| "some_type t (h # hs) =
     (case get_type h of
        Inl e \<Rightarrow> Inl e
      | Inr v \<Rightarrow> if v = JStr t then Inr True else some_type t hs)"

fun filter_type :: "string \<Rightarrow> jsval list \<Rightarrow> exn + jsval list" where
  \<comment> \<open>\<^verbatim>\<open>headings.filter(h => h.type === t)\<close>\<close>
  "filter_type t [] = Inr []"
| "filter_type t (h # hs) =
     (case get_type h of
        Inl e \<Rightarrow> Inl e
      | Inr v \<Rightarrow>
          (case filter_type t hs of
             Inl e \<Rightarrow> Inl e
           | Inr r \<Rightarrow> Inr (if v = JStr t then h # r else r)))"

definition calculateHeadingsScore :: "jsval \<Rightarrow> exn + number" where
  "calculateHeadingsScore headings =
     (if \<not> truthy headings \<or> \<not> Array_isArray headings then Inr 0
      else
        (case headings of
           JArr hs \<Rightarrow>
             (case some_type ''h1'' hs of
                Inl e \<Rightarrow> Inl e
              | Inr hasH1 \<Rightarrow>
                  (case some_type ''h2'' hs of
                     Inl e \<Rightarrow> Inl e
                   | Inr hasH2 \<Rightarrow>
                       (case filter_type ''h1'' hs of
                          Inl e \<Rightarrow> Inl e
                        | Inr h1s \<Rightarrow>
                            let score0 = (if hasH1 then 50 else 0);
                                score1 = (if hasH2 then score0 + 25 else score0);
                                h1Count = length h1s;
                                score2 = (if h1Count = 1 then score1 + 25
                                          else if h1Count > 1 then score1 - 25
                                          else score1)
                            in Inr (Math_max 0 (Math_min 100 score2)))))
         | _ \<Rightarrow> Inr 0))"

subsection \<open>calculateContentScore\<close>

definition calculateContentScore :: "string optional \<Rightarrow> number \<Rightarrow> number" where
  \<comment> \<open>\<open>minWords\<close> is 300 when the caller leaves it out\<close>
  "calculateContentScore content minWords =
     (case content of
        Undefined \<Rightarrow> 0
      | Null \<Rightarrow> 0
      | Given c \<Rightarrow>
          if c = [] then 0
          else
            let wordCount = of_nat (length (words c));
                score0 = (if wordCount \<ge> minWords then 60
                          else if wordCount \<ge> minWords / 2 then 30
                          else 0);
                paragraphs = split_blank_lines [] c;
                score1 = (if length paragraphs \<ge> 3 then score0 + 20 else score0);
                sentences = filter (\<lambda>s. s \<noteq> []) (split_runs is_sentence_end [] c);
                sentenceLengths = map (\<lambda>s. length (words (trim s))) sentences;
                hasVariety = (list_ex (\<lambda>len. len \<le> 10) sentenceLengths \<and>
                              list_ex (\<lambda>len. len > 15) sentenceLengths)
            in if hasVariety then score1 + 20 else score1)"

subsection \<open>calculateKeywordDensityScore\<close>

text \<open>
  The counting loop calls \<^verbatim>\<open>indexOf\<close> until it answers \<open>-1\<close>. Nothing in the loop
  itself bounds it (with an empty keyword it would not end), so it is a partial
  function: \<open>None\<close> stands for a loop that does not return.
\<close>

partial_function (option) count_loop :: "string \<Rightarrow> string \<Rightarrow> int \<Rightarrow> nat \<Rightarrow> nat option" where
  "count_loop contentLower keywordLower lastIndex count =
     (if indexOf contentLower keywordLower (lastIndex + 1) \<noteq> - 1
      then count_loop contentLower keywordLower
             (indexOf contentLower keywordLower (lastIndex + 1)) (count + 1)
      else Some count)"

definition density_score :: "number \<Rightarrow> number" where
  \<comment> \<open>the chain of tests on \<^verbatim>\<open>density\<close> that ends the function\<close>
  "density_score density =
     (if density \<ge> 1 \<and> density \<le> 3 then 100
      else if density > 0 \<and> density < 1 then 70
      else if density > 3 \<and> density \<le> 5 then 50
      else if density > 5 then 30
      else 0)"

definition calculateKeywordDensityScore :: "string optional \<Rightarrow> string \<Rightarrow> number option" where
  "calculateKeywordDensityScore content keyword =
     (case content of
        Undefined \<Rightarrow> Some 0
      | Null \<Rightarrow> Some 0
      | Given c \<Rightarrow>
          if c = [] \<or> keyword = [] then Some 0
          else
            let contentLower = toLowerCase c;
                keywordLower = toLowerCase keyword
            in (case count_loop contentLower keywordLower (- 1) 0 of
                  None \<Rightarrow> None
                | Some count \<Rightarrow>
                    let totalWords = length (words contentLower) in
                    if totalWords = 0 then Some 0
                    else
                      let density =
                            (of_nat count * of_nat (length (words keywordLower))
                               / of_nat totalWords) * 100
                      in Some (density_score density)))"

section \<open>The local persistence store\<close>

text \<open>
  \<^verbatim>\<open>src/app/utils/storage.client.ts\<close> keeps one JSON text under each of eight fixed keys
  of the browser's \<^verbatim>\<open>localStorage\<close>. A stored text is modelled by what
  \<^verbatim>\<open>JSON.parse\<close> makes of it at the type the reader expects: the empty text, a text
  that is no JSON, or the text of a value of that type (a text of a value of another shape
  is not modelled). \<^verbatim>\<open>JSON.stringify\<close> and \<^verbatim>\<open>JSON.parse\<close> are taken to be inverse on
  the entities: their fields are strings, finite numbers, lists of strings and, where the
  source says \<^verbatim>\<open>any\<close>, values of the type \<open>json\<close>, which stands for the values that
  survive serialization unchanged and is left abstract.
\<close>

subsection \<open>The stored entities\<close>

typedecl json

record Project =
  project_id :: string
  project_name :: string
  project_url :: string
  project_dateCreated :: string
  project_dateUpdated :: string

record AnalysisResult =
  analysis_id :: string
  analysis_url :: string
  analysis_dateAnalyzed :: string
  analysis_score :: number
  analysis_taskId :: "string option"
  analysis_summaryData :: "json option"

record SavedKeyword =
  keyword_id :: string
  keyword_keyword :: string
  keyword_dateAdded :: string
  keyword_volume :: "number option"
  keyword_difficulty :: "number option"
  keyword_cpc :: "number option"
  keyword_related :: "string list option"

record SavedContent =
  content_id :: string
  content_title :: string
  content_content :: string
  content_targetKeywords :: "string list"
  content_dateCreated :: string
  content_dateUpdated :: string
  content_score :: "number option"

record CompetitorAnalysis =
  competitor_id :: string
  competitor_dateCreated :: string
  competitor_mainDomain :: string
  competitor_competitorDomains :: "string list"
  competitor_results :: "json option"

record DataForSeoCredentials =
  username :: string
  password :: string

record OpenAiCredentials =
  apiKey :: string
  model :: string
  openai_baseUrl :: string

record Credentials =
  credentials_dataForSeo :: DataForSeoCredentials
  credentials_openai :: OpenAiCredentials

record DataForSeoEndpoints =
  endpoints_baseUrl :: string
  serpEndpoint :: string
  onPageEndpoint :: string
  contentAnalysisEndpoint :: string
  keywordDataEndpoint :: string

record ApiEndpoints =
  endpoints_dataForSeo :: DataForSeoEndpoints

datatype theme = light | dark

record UserSettings =
  language :: string
  country :: string
  defaultKeywordLocation :: "string option"
  settings_theme :: "theme option"

subsection \<open>The browser: storage, console and clock\<close>

datatype 'a item = Blank | Malformed | Doc 'a
  \<comment> \<open>a stored text: the empty string, a text that \<^verbatim>\<open>JSON.parse\<close> rejects, or the
      serialization of a value\<close>

record store =
  projects_text :: "Project list item option"
  recent_analyses_text :: "AnalysisResult list item option"
  saved_keywords_text :: "SavedKeyword list item option"
  saved_content_text :: "SavedContent list item option"
  competitor_analyses_text :: "CompetitorAnalysis list item option"
  settings_text :: "UserSettings item option"
  credentials_text :: "Credentials item option"
  api_endpoints_text :: "ApiEndpoints item option"

record world =
  has_window :: bool
    \<comment> \<open>\<^verbatim>\<open>typeof window !== 'undefined'\<close>\<close>
  localStorage :: store
    \<comment> \<open>\<open>None\<close> under a key: \<^verbatim>\<open>getItem\<close> answers \<^verbatim>\<open>null\<close>\<close>
  read_fault :: "string \<Rightarrow> exn option"
    \<comment> \<open>the exception \<^verbatim>\<open>localStorage.getItem(key)\<close> throws, if it throws\<close>
  write_fault :: "string \<Rightarrow> store \<Rightarrow> exn option"
    \<comment> \<open>the exception \<^verbatim>\<open>localStorage.setItem\<close> throws, if it throws, for a key and the
        content the write would leave (a full quota, for one)\<close>
  console :: "(string \<times> exn) list"
    \<comment> \<open>what \<^verbatim>\<open>console.error\<close> has printed\<close>
  clock :: "nat \<Rightarrow> string"
    \<comment> \<open>the answer of the n-th \<^verbatim>\<open>new Date().toISOString()\<close>\<close>
  reads :: nat

record 'a key =
  key_name :: string
  key_read :: "store \<Rightarrow> 'a item option"
  key_write :: "'a item option \<Rightarrow> store \<Rightarrow> store"

definition STORAGE_KEYS_PROJECTS :: "Project list key" where
  "STORAGE_KEYS_PROJECTS =
     \<lparr>key_name = ''seo-toolkit-projects'', key_read = projects_text,
      key_write = (\<lambda>v s. s\<lparr>projects_text := v\<rparr>)\<rparr>"

definition STORAGE_KEYS_RECENT_ANALYSES :: "AnalysisResult list key" where
  "STORAGE_KEYS_RECENT_ANALYSES =
     \<lparr>key_name = ''seo-toolkit-recent-analyses'', key_read = recent_analyses_text,
      key_write = (\<lambda>v s. s\<lparr>recent_analyses_text := v\<rparr>)\<rparr>"

definition STORAGE_KEYS_SAVED_KEYWORDS :: "SavedKeyword list key" where
  "STORAGE_KEYS_SAVED_KEYWORDS =
     \<lparr>key_name = ''seo-toolkit-saved-keywords'', key_read = saved_keywords_text,
      key_write = (\<lambda>v s. s\<lparr>saved_keywords_text := v\<rparr>)\<rparr>"

definition STORAGE_KEYS_SAVED_CONTENT :: "SavedContent list key" where
  "STORAGE_KEYS_SAVED_CONTENT =
     \<lparr>key_name = ''seo-toolkit-saved-content'', key_read = saved_content_text,
      key_write = (\<lambda>v s. s\<lparr>saved_content_text := v\<rparr>)\<rparr>"

definition STORAGE_KEYS_COMPETITOR_ANALYSES :: "CompetitorAnalysis list key" where
  "STORAGE_KEYS_COMPETITOR_ANALYSES =
     \<lparr>key_name = ''seo-toolkit-competitor-analyses'', key_read = competitor_analyses_text,
      key_write = (\<lambda>v s. s\<lparr>competitor_analyses_text := v\<rparr>)\<rparr>"

definition STORAGE_KEYS_SETTINGS :: "UserSettings key" where
  "STORAGE_KEYS_SETTINGS =
     \<lparr>key_name = ''seo-toolkit-settings'', key_read = settings_text,
      key_write = (\<lambda>v s. s\<lparr>settings_text := v\<rparr>)\<rparr>"

definition STORAGE_KEYS_CREDENTIALS :: "Credentials key" where
  "STORAGE_KEYS_CREDENTIALS =
     \<lparr>key_name = ''seo-toolkit-credentials'', key_read = credentials_text,
      key_write = (\<lambda>v s. s\<lparr>credentials_text := v\<rparr>)\<rparr>"

definition STORAGE_KEYS_API_ENDPOINTS :: "ApiEndpoints key" where
  "STORAGE_KEYS_API_ENDPOINTS =
     \<lparr>key_name = ''seo-toolkit-api-endpoints'', key_read = api_endpoints_text,
      key_write = (\<lambda>v s. s\<lparr>api_endpoints_text := v\<rparr>)\<rparr>"

definition now :: "world \<Rightarrow> string \<times> world" where
  \<comment> \<open>\<^verbatim>\<open>new Date().toISOString()\<close>\<close>
  "now w = (clock w (reads w), w\<lparr>reads := Suc (reads w)\<rparr>)"

definition console_error :: "string \<Rightarrow> exn \<Rightarrow> world \<Rightarrow> world" where
  "console_error message error w = w\<lparr>console := console w @ [(message, error)]\<rparr>"

definition getItem :: "'a key \<Rightarrow> world \<Rightarrow> exn + 'a item option" where
  "getItem k w =
     (case read_fault w (key_name k) of
        Some e \<Rightarrow> Inl e
      | None \<Rightarrow> Inr (key_read k (localStorage w)))"

fun JSON_parse :: "'a item \<Rightarrow> exn + 'a" where
  "JSON_parse (Doc v) = Inr v"
| "JSON_parse Malformed = Inl SyntaxError"
| "JSON_parse Blank = Inl SyntaxError"

definition setItem :: "'a key \<Rightarrow> 'a \<Rightarrow> world \<Rightarrow> exn + world" where
  \<comment> \<open>\<^verbatim>\<open>localStorage.setItem(key, JSON.stringify(value))\<close>\<close>
  "setItem k v w =
     (let s = key_write k (Some (Doc v)) (localStorage w) in
      case write_fault w (key_name k) s of
        Some e \<Rightarrow> Inl e
      | None \<Rightarrow> Inr (w\<lparr>localStorage := s\<rparr>))"

subsection \<open>getFromStorage and setInStorage\<close>

definition getFromStorage :: "'a key \<Rightarrow> 'a \<Rightarrow> world \<Rightarrow> (exn + 'a) \<times> world" where
  \<comment> \<open>the inner \<open>case\<close> is the body of the \<^verbatim>\<open>try\<close>, the outer one the \<^verbatim>\<open>catch\<close>\<close>
  "getFromStorage k defaultValue w =
     (if \<not> has_window w then (Inr defaultValue, w)
      else
        (case (case getItem k w of
                 Inl e \<Rightarrow> Inl e
               | Inr None \<Rightarrow> Inr defaultValue
               | Inr (Some Blank) \<Rightarrow> Inr defaultValue
               | Inr (Some text) \<Rightarrow> JSON_parse text) of
           Inr v \<Rightarrow> (Inr v, w)
         | Inl error \<Rightarrow>
             (Inr defaultValue,
              console_error (''Error retrieving '' @ key_name k @ '' from localStorage:'')
                error w)))"

definition setInStorage :: "'a key \<Rightarrow> 'a \<Rightarrow> world \<Rightarrow> (exn + unit) \<times> world" where
  "setInStorage k v w =
     (if \<not> has_window w then (Inr (), w)
      else
        (case setItem k v w of
           Inr w' \<Rightarrow> (Inr (), w')
         | Inl error \<Rightarrow>
             (Inl error,
              console_error (''Error saving '' @ key_name k @ '' to localStorage:'')
                error w)))"

definition findIndex :: "('a \<Rightarrow> bool) \<Rightarrow> 'a list \<Rightarrow> int" where
  \<comment> \<open>the index of the first element that satisfies the test, or \<open>-1\<close>\<close>
  "findIndex P xs =
     (if list_ex P xs then int (length (takeWhile (\<lambda>x. \<not> P x) xs)) else - 1)"

subsection \<open>The collections\<close>

definition getProjects :: "world \<Rightarrow> (exn + Project list) \<times> world" where
  "getProjects w = getFromStorage STORAGE_KEYS_PROJECTS [] w"

definition saveProject :: "Project \<Rightarrow> world \<Rightarrow> (exn + unit) \<times> world" where
  "saveProject project w =
     (case getProjects w of
        (Inl e, w1) \<Rightarrow> (Inl e, w1)
      | (Inr projects, w1) \<Rightarrow>
          let index = findIndex (\<lambda>p. project_id p = project_id project) projects in
          if index \<ge> 0
          then
            (case now w1 of
               (t, w2) \<Rightarrow>
                 setInStorage STORAGE_KEYS_PROJECTS
                   (projects[nat index := project\<lparr>project_dateUpdated := t\<rparr>]) w2)
          else
            (case now w1 of
               (t1, w2) \<Rightarrow>
                 (case now w2 of
                    (t2, w3) \<Rightarrow>
                      setInStorage STORAGE_KEYS_PROJECTS
                        (projects @
                           [project\<lparr>project_dateCreated := t1, project_dateUpdated := t2\<rparr>])
                        w3)))"

definition getRecentAnalyses :: "world \<Rightarrow> (exn + AnalysisResult list) \<times> world" where
  "getRecentAnalyses w = getFromStorage STORAGE_KEYS_RECENT_ANALYSES [] w"

definition saveAnalysisResult :: "AnalysisResult \<Rightarrow> world \<Rightarrow> (exn + unit) \<times> world" where
  "saveAnalysisResult analysis w =
     (case getRecentAnalyses w of
        (Inl e, w1) \<Rightarrow> (Inl e, w1)
      | (Inr analyses, w1) \<Rightarrow>
          let index = findIndex (\<lambda>a. analysis_id a = analysis_id analysis) analyses in
          if index \<ge> 0
          then setInStorage STORAGE_KEYS_RECENT_ANALYSES (analyses[nat index := analysis]) w1
          else
            let unshifted = analysis # analyses in
            setInStorage STORAGE_KEYS_RECENT_ANALYSES
              (if length unshifted > 10 then butlast unshifted else unshifted) w1)"

definition getSavedKeywords :: "world \<Rightarrow> (exn + SavedKeyword list) \<times> world" where
  "getSavedKeywords w = getFromStorage STORAGE_KEYS_SAVED_KEYWORDS [] w"

definition saveKeyword :: "SavedKeyword \<Rightarrow> world \<Rightarrow> (exn + unit) \<times> world" where
  "saveKeyword keyword w =
     (case getSavedKeywords w of
        (Inl e, w1) \<Rightarrow> (Inl e, w1)
      | (Inr keywords, w1) \<Rightarrow>
          let index = findIndex (\<lambda>k. keyword_id k = keyword_id keyword) keywords in
          if index \<ge> 0
          then setInStorage STORAGE_KEYS_SAVED_KEYWORDS (keywords[nat index := keyword]) w1
          else
            (case now w1 of
               (t, w2) \<Rightarrow>
                 setInStorage STORAGE_KEYS_SAVED_KEYWORDS
                   (keywords @ [keyword\<lparr>keyword_dateAdded := t\<rparr>]) w2))"

definition getSavedContent :: "world \<Rightarrow> (exn + SavedContent list) \<times> world" where
  "getSavedContent w = getFromStorage STORAGE_KEYS_SAVED_CONTENT [] w"

definition saveContent :: "SavedContent \<Rightarrow> world \<Rightarrow> (exn + unit) \<times> world" where
  "saveContent content w =
     (case getSavedContent w of
        (Inl e, w1) \<Rightarrow> (Inl e, w1)
      | (Inr contents, w1) \<Rightarrow>
          let index = findIndex (\<lambda>c. content_id c = content_id content) contents in
          if index \<ge> 0
          then
            (case now w1 of
               (t, w2) \<Rightarrow>
                 setInStorage STORAGE_KEYS_SAVED_CONTENT
                   (contents[nat index := content\<lparr>content_dateUpdated := t\<rparr>]) w2)
          else
            (case now w1 of
               (t1, w2) \<Rightarrow>
                 (case now w2 of
                    (t2, w3) \<Rightarrow>
                      setInStorage STORAGE_KEYS_SAVED_CONTENT
                        (contents @
                           [content\<lparr>content_dateCreated := t1, content_dateUpdated := t2\<rparr>])
                        w3)))"

definition getCompetitorAnalyses :: "world \<Rightarrow> (exn + CompetitorAnalysis list) \<times> world" where
  "getCompetitorAnalyses w = getFromStorage STORAGE_KEYS_COMPETITOR_ANALYSES [] w"

definition saveCompetitorAnalysis :: "CompetitorAnalysis \<Rightarrow> world \<Rightarrow> (exn + unit) \<times> world" where
  "saveCompetitorAnalysis analysis w =
     (case getCompetitorAnalyses w of
        (Inl e, w1) \<Rightarrow> (Inl e, w1)
      | (Inr analyses, w1) \<Rightarrow>
          let index = findIndex (\<lambda>a. competitor_id a = competitor_id analysis) analyses in
          if index \<ge> 0
          then setInStorage STORAGE_KEYS_COMPETITOR_ANALYSES (analyses[nat index := analysis]) w1
          else
            (case now w1 of
               (t, w2) \<Rightarrow>
                 setInStorage STORAGE_KEYS_COMPETITOR_ANALYSES
                   (analyses @ [analysis\<lparr>competitor_dateCreated := t\<rparr>]) w2))"

subsection \<open>Credentials, endpoints and settings\<close>

definition default_credentials :: Credentials where
  "default_credentials =
     \<lparr>credentials_dataForSeo = \<lparr>username = [], password = []\<rparr>,
      credentials_openai =
        \<lparr>apiKey = [], model = ''gpt-4'', openai_baseUrl = ''https://api.openai.com/v1''\<rparr>\<rparr>"

definition getCredentials :: "world \<Rightarrow> (exn + Credentials) \<times> world" where
  "getCredentials w = getFromStorage STORAGE_KEYS_CREDENTIALS default_credentials w"

definition saveCredentials :: "Credentials \<Rightarrow> world \<Rightarrow> (exn + unit) \<times> world" where
  "saveCredentials c w = setInStorage STORAGE_KEYS_CREDENTIALS c w"

definition default_api_endpoints :: ApiEndpoints where
  "default_api_endpoints =
     \<lparr>endpoints_dataForSeo =
        \<lparr>endpoints_baseUrl = ''https://api.dataforseo.com/v3'',
         serpEndpoint = ''/serp'',
         onPageEndpoint = ''/on_page'',
         contentAnalysisEndpoint = ''/content_analysis'',
         keywordDataEndpoint = ''/keywords_data''\<rparr>\<rparr>"

definition getApiEndpoints :: "world \<Rightarrow> (exn + ApiEndpoints) \<times> world" where
  "getApiEndpoints w = getFromStorage STORAGE_KEYS_API_ENDPOINTS default_api_endpoints w"

definition saveApiEndpoints :: "ApiEndpoints \<Rightarrow> world \<Rightarrow> (exn + unit) \<times> world" where
  "saveApiEndpoints e w = setInStorage STORAGE_KEYS_API_ENDPOINTS e w"

definition default_user_settings :: UserSettings where
  "default_user_settings =
     \<lparr>language = ''en'', country = ''US'', defaultKeywordLocation = Some ''2840'',
      settings_theme = Some light\<rparr>"

definition getUserSettings :: "world \<Rightarrow> (exn + UserSettings) \<times> world" where
  "getUserSettings w = getFromStorage STORAGE_KEYS_SETTINGS default_user_settings w"

definition saveUserSettings :: "UserSettings \<Rightarrow> world \<Rightarrow> (exn + unit) \<times> world" where
  "saveUserSettings u w = setInStorage STORAGE_KEYS_SETTINGS u w"

section \<open>Notions the properties are stated with\<close>

definition has_type :: "string \<Rightarrow> jsval \<Rightarrow> bool" where
  \<comment> \<open>\<^verbatim>\<open>h.type === t\<close> evaluates to true\<close>
  "has_type t h = (get_type h = Inr (JStr t))"

definition nullish :: "jsval \<Rightarrow> bool" where
  "nullish h = (h = JNull \<or> h = JUndefined)"

definition weight_of :: "string \<Rightarrow> number" where
  \<comment> \<open>the weight the table gives a factor; a factor that is not in the table weighs nothing\<close>
  "weight_of factor = (case map_of weights factor of Some w \<Rightarrow> w | None \<Rightarrow> 0)"

definition weightApplied :: "(string \<times> number) list \<Rightarrow> number" where
  "weightApplied factors = sum_list (map (\<lambda>(factor, score). weight_of factor) factors)"

definition weightedSum :: "(string \<times> number) list \<Rightarrow> number" where
  "weightedSum factors = sum_list (map (\<lambda>(factor, score). score * weight_of factor) factors)"

definition inherited_key :: "string \<times> number \<Rightarrow> bool" where
  "inherited_key = (\<lambda>(factor, score). factor \<in> set Object_prototype)"

definition in_range :: "string \<times> number \<Rightarrow> bool" where
  "in_range = (\<lambda>(factor, score). 0 \<le> score \<and> score \<le> 100)"

definition length_band :: "nat \<Rightarrow> nat \<Rightarrow> nat \<Rightarrow> nat \<Rightarrow> nat \<Rightarrow> number" where
  \<comment> \<open>100 for a length in the ideal band, 70 for one in the acceptable band, else 40\<close>
  "length_band lo hi lo' hi' n =
     (if lo \<le> n \<and> n \<le> hi then 100 else if lo' \<le> n \<and> n \<le> hi' then 70 else 40)"

definition keyword_occurs :: "string \<Rightarrow> string list \<Rightarrow> bool" where
  \<comment> \<open>some keyword is, letter case aside, a contiguous part of the text\<close>
  "keyword_occurs text keywords =
     (\<exists>k \<in> set keywords. sublist (toLowerCase k) (toLowerCase text))"

definition occurs_at :: "string \<Rightarrow> string \<Rightarrow> nat \<Rightarrow> bool" where
  \<comment> \<open>\<open>k\<close> is a substring of \<open>s\<close> that starts at index \<open>i\<close>\<close>
  "occurs_at s k i = prefix k (drop i s)"

definition occurrences_from :: "string \<Rightarrow> string \<Rightarrow> nat \<Rightarrow> nat" where
  "occurrences_from s k p = length (filter (occurs_at s k) [p..<length s])"

definition occurrences :: "string \<Rightarrow> string \<Rightarrow> nat" where
  \<comment> \<open>the number of places of \<open>s\<close> at which \<open>k\<close> occurs as a substring\<close>
  "occurrences s k = occurrences_from s k 0"

definition density :: "string \<Rightarrow> string \<Rightarrow> number" where
  \<comment> \<open>occurrences times words of the keyword, by total words, times 100\<close>
  "density content keyword =
     of_nat (occurrences (toLowerCase content) (toLowerCase keyword))
       * of_nat (length (words (toLowerCase keyword)))
       / of_nat (length (words (toLowerCase content))) * 100"

fun replace_first :: "('a \<Rightarrow> bool) \<Rightarrow> 'a \<Rightarrow> 'a list \<Rightarrow> 'a list" where
  \<comment> \<open>the list with the first element that satisfies the test replaced\<close>
  "replace_first P y [] = []"
| "replace_first P y (x # xs) = (if P x then y # xs else x # replace_first P y xs)"

definition writes_succeed :: "world \<Rightarrow> bool" where
  \<comment> \<open>there is a window, and \<^verbatim>\<open>localStorage\<close> accepts every write\<close>
  "writes_succeed w = (has_window w \<and> (\<forall>name s. write_fault w name s = None))"

definition storage_works :: "world \<Rightarrow> bool" where
  \<comment> \<open>there is a window, and \<^verbatim>\<open>localStorage\<close> answers every read and accepts every write\<close>
  "storage_works w =
     (has_window w \<and> (\<forall>name. read_fault w name = None)
      \<and> (\<forall>name s. write_fault w name s = None))"

definition save_all :: "AnalysisResult list \<Rightarrow> world \<Rightarrow> world" where
  \<comment> \<open>one call of \<^verbatim>\<open>saveAnalysisResult\<close> after the other, first entity first\<close>
  "save_all as w = foldl (\<lambda>w a. snd (saveAnalysisResult a w)) w as"

definition empty_store :: store where
  "empty_store =
     \<lparr>projects_text = None, recent_analyses_text = None, saved_keywords_text = None,
      saved_content_text = None, competitor_analyses_text = None, settings_text = None,
      credentials_text = None, api_endpoints_text = None\<rparr>"

definition browser :: world where
  "browser =
     \<lparr>has_window = True, localStorage = empty_store, read_fault = (\<lambda>name. None),
      write_fault = (\<lambda>name s. None), console = [],
      clock = (\<lambda>n. ''T'' @ replicate n CHR ''+''), reads = 0\<rparr>"

definition analysis_with_id :: "string \<Rightarrow> AnalysisResult" where
  "analysis_with_id i =
     \<lparr>analysis_id = i, analysis_url = ''https://example.com'',
      analysis_dateAnalyzed = ''2024-01-01T00:00:00.000Z'', analysis_score = 50,
      analysis_taskId = None, analysis_summaryData = None\<rparr>"

definition eleven_analyses :: "AnalysisResult list" where
  "eleven_analyses =
     map analysis_with_id
       [''one'', ''two'', ''three'', ''four'', ''five'', ''six'', ''seven'', ''eight'', ''nine'',
        ''ten'', ''eleven'']"


definition write_refused :: "'a key \<Rightarrow> exn \<Rightarrow> world \<Rightarrow> bool" where
  \<comment> \<open>there is a window, and \<^verbatim>\<open>setItem\<close> throws \<open>e\<close> at every write under the key\<close>
  "write_refused k e w = (has_window w \<and> (\<forall>s. write_fault w (key_name k) s = Some e))"



definition returns_silently :: "world \<Rightarrow> (exn + unit) \<times> world \<Rightarrow> bool" where
  \<comment> \<open>the call returned, stored nothing and printed nothing\<close>
  "returns_silently before r =
     (fst r = Inr () \<and> localStorage (snd r) = localStorage before
      \<and> console (snd r) = console before)"

text \<open>Worlds and entities the properties are tried on.\<close>

definition server :: world where
  "server = browser\<lparr>has_window := False\<rparr>"


definition project_with_id :: "string \<Rightarrow> Project" where
  "project_with_id i =
     \<lparr>project_id = i, project_name = ''Shop'', project_url = ''https://example.com'',
      project_dateCreated = ''2024-01-01T00:00:00.000Z'',
      project_dateUpdated = ''2024-01-01T00:00:00.000Z''\<rparr>"

definition keyword_with_id :: "string \<Rightarrow> SavedKeyword" where
  "keyword_with_id i =
     \<lparr>keyword_id = i, keyword_keyword = ''shoes'',
      keyword_dateAdded = ''2024-01-01T00:00:00.000Z'', keyword_volume = None,
      keyword_difficulty = None, keyword_cpc = None, keyword_related = None\<rparr>"

definition stocked_browser :: world where
  "stocked_browser =
     browser\<lparr>localStorage :=
       empty_store\<lparr>projects_text := Some (Doc [project_with_id ''p'', project_with_id ''q'']),
         recent_analyses_text := Some (Doc [analysis_with_id ''a'']),
         saved_keywords_text := Some (Doc [keyword_with_id ''k''])\<rparr>\<rparr>"

section \<open>Properties of the scoring engine\<close>

subsection \<open>calculateHeadingsScore\<close>

lemma get_type_defined: "\<not> nullish h \<Longrightarrow> \<exists>v. get_type h = Inr v"
  by (cases h) (simp_all add: nullish_def)

lemma some_type_eq:
  "\<not> list_ex nullish hs \<Longrightarrow> some_type t hs = Inr (list_ex (has_type t) hs)"
proof (induction hs)
  case Nil
  then show ?case by simp
next
  case (Cons h hs)
  then obtain v where "get_type h = Inr v"
    using get_type_defined [of h] by auto
  with Cons show ?case by (simp add: has_type_def)
qed

lemma filter_type_eq:
  "\<not> list_ex nullish hs \<Longrightarrow> filter_type t hs = Inr (filter (has_type t) hs)"
proof (induction hs)
  case Nil
  then show ?case by simp
next
  case (Cons h hs)
  then obtain v where "get_type h = Inr v"
    using get_type_defined [of h] by auto
  with Cons show ?case by (simp add: has_type_def)
qed

text \<open>
  C7. On an array of headings none of which is \<^verbatim>\<open>null\<close> or \<^verbatim>\<open>undefined\<close>,
  \<^verbatim>\<open>calculateHeadingsScore\<close> returns, clamped to the interval from 0 to 100: 50 if some
  heading has the type h1, plus 25 if some heading has the type h2, plus 25 if exactly one
  heading has the type h1, minus 25 if more than one has. For two h1 and one h2 that is 50.
\<close>

theorem calculateHeadingsScore_spec:
  "(\<not> list_ex nullish hs \<longrightarrow>
      calculateHeadingsScore (JArr hs) =
        Inr (Math_max 0 (Math_min 100
          ((if list_ex (has_type ''h1'') hs then 50 else 0)
           + (if list_ex (has_type ''h2'') hs then 25 else 0)
           + (if length (filter (has_type ''h1'') hs) = 1 then 25 else 0)
           - (if length (filter (has_type ''h1'') hs) > 1 then 25 else 0)))))
   \<and> calculateHeadingsScore
         (JArr [JObj [(''type'', JStr ''h1'')], JObj [(''type'', JStr ''h1'')],
                JObj [(''type'', JStr ''h2'')]]) = Inr 50"
proof (intro conjI impI)
  assume ok: "\<not> list_ex nullish hs"
  show "calculateHeadingsScore (JArr hs) =
        Inr (Math_max 0 (Math_min 100
          ((if list_ex (has_type ''h1'') hs then 50 else 0)
           + (if list_ex (has_type ''h2'') hs then 25 else 0)
           + (if length (filter (has_type ''h1'') hs) = 1 then 25 else 0)
           - (if length (filter (has_type ''h1'') hs) > 1 then 25 else 0))))"
    by (simp add: calculateHeadingsScore_def some_type_eq [OF ok] filter_type_eq [OF ok]
        Let_def)
next
  show "calculateHeadingsScore
         (JArr [JObj [(''type'', JStr ''h1'')], JObj [(''type'', JStr ''h1'')],
                JObj [(''type'', JStr ''h2'')]]) = Inr 50"
    by (simp add: calculateHeadingsScore_def Math_max_def Math_min_def)
qed

theorem calculateHeadingsScore_spec_witness:
  "\<not> list_ex nullish
       [JObj [(''type'', JStr ''h1'')], JObj [(''type'', JStr ''h2'')], JStr ''x'']
   \<and> calculateHeadingsScore
         (JArr [JObj [(''type'', JStr ''h1'')], JObj [(''type'', JStr ''h2'')], JStr ''x''])
       = Inr 100"
  using calculateHeadingsScore_spec
    [of "[JObj [(''type'', JStr ''h1'')], JObj [(''type'', JStr ''h2'')], JStr ''x'']"]
  by (simp add: nullish_def has_type_def Math_max_def Math_min_def)

text \<open>
  C9. The guard of \<^verbatim>\<open>calculateHeadingsScore\<close> lets every array through, and the
  callbacks read \<^verbatim>\<open>h.type\<close> of each element: on an array that holds \<^verbatim>\<open>null\<close> the
  function throws a TypeError instead of returning a number.
\<close>

theorem calculateHeadingsScore_null_element_throws:
  "calculateHeadingsScore (JArr [JNull]) = Inl TypeError"
  by (simp add: calculateHeadingsScore_def)

theorem calculateHeadingsScore_null_element_throws_witness:
  "truthy (JArr [JNull]) \<and> Array_isArray (JArr [JNull])
   \<and> calculateHeadingsScore (JArr [JNull]) = Inl TypeError"
  using calculateHeadingsScore_null_element_throws by simp

lemma calculateHeadingsScore_not_array:
  "\<not> Array_isArray v \<Longrightarrow> calculateHeadingsScore v = Inr 0"
  by (simp add: calculateHeadingsScore_def)

subsection \<open>calculateTitleScore and calculateDescriptionScore\<close>

lemma includes_str_sublist: "includes_str s k \<longleftrightarrow> sublist k s"
  by (auto simp: includes_str_def list_ex_iff sublist_altdef')

lemma floor_rat_numeral [simp]:
  "\<lfloor>numeral a / numeral b :: rat\<rfloor> = numeral a div numeral b"
  by (metis floor_divide_of_int_eq of_int_numeral)

lemma calculateTitleScore_eq:
  "calculateTitleScore title keywords =
     (case title of
        Given t \<Rightarrow>
          if t = [] then 0
          else if keywords = [] then length_band 50 60 40 70 (length t)
          else Math_round ((length_band 50 60 40 70 (length t)
                 + (if keyword_occurs t keywords then 100 else 0)) / 2)
      | _ \<Rightarrow> 0)"
  by (auto simp: calculateTitleScore_def length_band_def keyword_occurs_def Let_def
      list_ex_iff includes_str_sublist split: optional.splits)

lemma calculateDescriptionScore_eq:
  "calculateDescriptionScore description keywords =
     (case description of
        Given d \<Rightarrow>
          if d = [] then 0
          else if keywords = [] then length_band 150 160 120 170 (length d)
          else Math_round ((length_band 150 160 120 170 (length d)
                 + (if keyword_occurs d keywords then 100 else 0)) / 2)
      | _ \<Rightarrow> 0)"
  by (auto simp: calculateDescriptionScore_def length_band_def keyword_occurs_def Let_def
      list_ex_iff includes_str_sublist split: optional.splits)




subsection \<open>calculateSeoScore\<close>

lemma add_factor_Totals:
  "\<not> inherited_key f \<Longrightarrow>
   add_factor (Totals s a) f = Totals (s + snd f * weight_of (fst f)) (a + weight_of (fst f))"
  by (cases f) (auto simp: inherited_key_def weights_get_def weight_of_def split: option.splits)

lemma foldl_add_factor:
  "\<not> list_ex inherited_key fs \<Longrightarrow>
   foldl add_factor (Totals s a) fs = Totals (s + weightedSum fs) (a + weightApplied fs)"
proof (induction fs arbitrary: s a)
  case Nil
  then show ?case by (simp add: weightedSum_def weightApplied_def)
next
  case (Cons f fs)
  then show ?case
    by (simp add: add_factor_Totals weightedSum_def weightApplied_def case_prod_unfold add.assoc)
qed

text \<open>
  On a factor map none of whose keys is a name that objects inherit, the function is the
  weighted sum over the keys of the table, divided by the weight applied when that lies
  strictly between 0 and 1: keys outside the table add nothing to either sum.
\<close>

lemma calculateSeoScore_formula:
  "\<not> list_ex inherited_key fs \<Longrightarrow>
   calculateSeoScore fs =
     (if 0 < weightApplied fs \<and> weightApplied fs < 1
      then Num (Math_round (weightedSum fs / weightApplied fs))
      else Num (Math_round (weightedSum fs)))"
  by (simp add: calculateSeoScore_def foldl_add_factor)

lemma calculateSeoScore_two_factors:
  "calculateSeoScore [(''metaTitle'', 80), (''contentQuality'', 60)] = Num 69"
  by (simp add: calculateSeoScore_def weights_get_def weights_def Math_round_def)

lemma weight_of_nonneg: "0 \<le> weight_of k"
  by (auto simp: weight_of_def weights_def split: option.splits if_splits)

lemma weight_of_unknown: "k \<notin> set (map fst weights) \<Longrightarrow> weight_of k = 0"
  by (simp add: weight_of_def map_of_eq_None_iff [THEN iffD2])

lemma weights_total: "sum_list (map snd weights) = 1"
  by (simp add: weights_def)

lemma distinct_weights: "distinct (map fst weights)"
  by (simp add: weights_def)

lemma sum_weights: "sum weight_of (set (map fst weights)) = 1"
proof -
  have "sum weight_of (set (map fst weights)) = sum_list (map weight_of (map fst weights))"
    using distinct_weights by (simp only: sum_list_distinct_conv_sum_set)
  also have "\<dots> = 1"
    by (simp add: weights_def weight_of_def)
  finally show ?thesis .
qed

lemma weightApplied_le_1:
  assumes "distinct (map fst fs)"
  shows "weightApplied fs \<le> 1"
proof -
  let ?K = "set (map fst fs)" and ?D = "set (map fst weights)"
  have "weightApplied fs = sum_list (map weight_of (map fst fs))"
    by (simp add: weightApplied_def case_prod_unfold comp_def)
  also have "\<dots> = sum weight_of ?K"
    using assms by (simp only: sum_list_distinct_conv_sum_set)
  also have "\<dots> = sum weight_of (?K \<inter> ?D)"
    by (rule sum.mono_neutral_right) (auto simp: weight_of_unknown)
  also have "\<dots> \<le> sum weight_of ?D"
    by (rule sum_mono2) (auto simp: weight_of_nonneg)
  finally show ?thesis by (simp only: sum_weights)
qed

lemma weightedSum_bounds:
  "list_all in_range fs \<Longrightarrow> 0 \<le> weightedSum fs \<and> weightedSum fs \<le> 100 * weightApplied fs"
proof (induction fs)
  case Nil
  then show ?case by (simp add: weightedSum_def weightApplied_def)
next
  case (Cons f fs)
  obtain k v where f: "f = (k, v)" by (cases f)
  from Cons.prems f have v: "0 \<le> v" "v \<le> 100" by (simp_all add: in_range_def)
  have w: "0 \<le> weight_of k" by (rule weight_of_nonneg)
  from v w have "0 \<le> v * weight_of k" "v * weight_of k \<le> 100 * weight_of k"
    by (simp_all add: mult_right_mono)
  moreover from Cons have "0 \<le> weightedSum fs" "weightedSum fs \<le> 100 * weightApplied fs"
    by simp_all
  ultimately show ?case
    by (simp add: f weightedSum_def weightApplied_def)
qed

lemma Math_round_range:
  "0 \<le> x \<Longrightarrow> x \<le> 100 \<Longrightarrow> 0 \<le> Math_round x \<and> Math_round x \<le> 100"
proof -
  assume x: "0 \<le> x" "x \<le> 100"
  then have "0 \<le> \<lfloor>x + 1 / 2\<rfloor>" by simp
  moreover from x have "x + 1 / 2 < of_int 101" by simp
  then have "\<lfloor>x + 1 / 2\<rfloor> < 101" by (simp only: floor_less_iff)
  ultimately show ?thesis by (simp add: Math_round_def)
qed

text \<open>
  The weights of the table add up to 1, so on a factor map with scores from 0 to 100 and
  no inherited name among its keys the overall score lies between 0 and 100.
\<close>

lemma calculateSeoScore_range:
  assumes "\<not> list_ex inherited_key fs" and "distinct (map fst fs)" and "list_all in_range fs"
  shows "\<exists>s. calculateSeoScore fs = Num s \<and> 0 \<le> s \<and> s \<le> 100"
proof -
  have b: "0 \<le> weightedSum fs" "weightedSum fs \<le> 100 * weightApplied fs"
    using weightedSum_bounds [OF assms(3)] by simp_all
  have a1: "weightApplied fs \<le> 1" by (rule weightApplied_le_1 [OF assms(2)])
  show ?thesis
  proof (cases "0 < weightApplied fs \<and> weightApplied fs < 1")
    case True
    then have "0 \<le> weightedSum fs / weightApplied fs" "weightedSum fs / weightApplied fs \<le> 100"
      using b by (simp_all add: pos_divide_le_eq)
    then have "0 \<le> Math_round (weightedSum fs / weightApplied fs)
      \<and> Math_round (weightedSum fs / weightApplied fs) \<le> 100"
      by (rule Math_round_range)
    moreover have "calculateSeoScore fs = Num (Math_round (weightedSum fs / weightApplied fs))"
      using True by (simp add: calculateSeoScore_formula [OF assms(1)])
    ultimately show ?thesis by simp
  next
    case False
    have "weightedSum fs \<le> 100"
      using b a1 by simp
    with b(1) have "0 \<le> Math_round (weightedSum fs) \<and> Math_round (weightedSum fs) \<le> 100"
      by (rule Math_round_range)
    moreover have "calculateSeoScore fs = Num (Math_round (weightedSum fs))"
      using False by (auto simp add: calculateSeoScore_formula [OF assms(1)])
    ultimately show ?thesis by simp
  qed
qed

text \<open>
  C1. A factor map may have a key such as \<^verbatim>\<open>toString\<close>, which \<^verbatim>\<open>factor in weights\<close>
  accepts because the table inherits a property of that name. The score is then NaN,
  which is no value between 0 and 100, although the one factor score is 50.
\<close>

theorem calculateSeoScore_inherited_key_NaN:
  "list_all in_range [(''toString'', 50)] \<and> calculateSeoScore [(''toString'', 50)] = NaN"
  by (simp add: calculateSeoScore_def weights_get_def weights_def Object_prototype_def
      in_range_def)

text \<open>
  C2. The key \<^verbatim>\<open>valueOf\<close> is not in the weight table and is not ignored: with it the
  score of the two-factor example is NaN, without it 69.
\<close>

theorem calculateSeoScore_unknown_key_not_ignored:
  "calculateSeoScore [(''metaTitle'', 80), (''contentQuality'', 60), (''valueOf'', 10)] = NaN
   \<and> calculateSeoScore [(''metaTitle'', 80), (''contentQuality'', 60)] = Num 69"
  by (simp add: calculateSeoScore_def weights_get_def weights_def Object_prototype_def
      Math_round_def)

subsection \<open>calculateKeywordDensityScore\<close>

lemma search_from_none:
  "k \<noteq> [] \<Longrightarrow> search_from k cs i = - 1 \<Longrightarrow> j < length cs \<Longrightarrow> \<not> prefix k (drop j cs)"
proof (induction cs arbitrary: i j)
  case Nil
  then show ?case by simp
next
  case (Cons c cs)
  then show ?case
    by (cases j) (auto split: if_splits)
qed

lemma search_from_some:
  "k \<noteq> [] \<Longrightarrow> search_from k cs i \<noteq> - 1 \<Longrightarrow>
   \<exists>j < length cs. search_from k cs i = int (i + j) \<and> prefix k (drop j cs)
      \<and> (\<forall>j' < j. \<not> prefix k (drop j' cs))"
proof (induction cs arbitrary: i)
  case Nil
  then show ?case by simp
next
  case (Cons c cs)
  show ?case
  proof (cases "prefix k (c # cs)")
    case True
    then show ?thesis by (intro exI [of _ 0]) simp
  next
    case False
    with Cons.prems have "search_from k cs (Suc i) \<noteq> - 1" by simp
    from Cons.IH [OF Cons.prems(1) this]
    obtain j where j: "j < length cs" "search_from k cs (Suc i) = int (Suc i + j)"
      "prefix k (drop j cs)" "\<forall>j' < j. \<not> prefix k (drop j' cs)"
      by blast
    have "\<forall>j' < Suc j. \<not> prefix k (drop j' (c # cs))"
    proof (intro allI impI)
      fix j' assume "j' < Suc j"
      then show "\<not> prefix k (drop j' (c # cs))"
        using False j(4) by (cases j') auto
    qed
    with j False show ?thesis
      by (intro exI [of _ "Suc j"]) simp
  qed
qed

lemma indexOf_none:
  assumes "k \<noteq> []" "indexOf s k (int p) = - 1" "p \<le> i" "i < length s"
  shows "\<not> occurs_at s k i"
proof -
  from assms(3,4) have p: "p < length s" by simp
  then have "search_from k (drop p s) p = - 1"
    using assms(2) by (simp add: indexOf_def Let_def min_def)
  from search_from_none [OF assms(1) this, of "i - p"] assms(3,4)
  show ?thesis by (simp add: occurs_at_def)
qed

lemma indexOf_some:
  assumes "k \<noteq> []" "indexOf s k (int p) \<noteq> - 1"
  shows "\<exists>j. indexOf s k (int p) = int j \<and> p \<le> j \<and> j < length s \<and> occurs_at s k j
           \<and> (\<forall>i. p \<le> i \<and> i < j \<longrightarrow> \<not> occurs_at s k i)"
proof (cases "p < length s")
  case False
  then have "indexOf s k (int p) = - 1"
    using assms(1) by (simp add: indexOf_def Let_def min_def)
  with assms(2) show ?thesis by simp
next
  case True
  then have eq: "indexOf s k (int p) = search_from k (drop p s) p"
    by (simp add: indexOf_def Let_def min_def)
  with assms(2) have "search_from k (drop p s) p \<noteq> - 1" by simp
  from search_from_some [OF assms(1) this]
  obtain j where j: "j < length (drop p s)" "search_from k (drop p s) p = int (p + j)"
    "prefix k (drop j (drop p s))" "\<forall>j' < j. \<not> prefix k (drop j' (drop p s))"
    by blast
  have "\<forall>i. p \<le> i \<and> i < p + j \<longrightarrow> \<not> occurs_at s k i"
  proof (intro allI impI)
    fix i assume i: "p \<le> i \<and> i < p + j"
    then have "i - p < j" by arith
    with j(4) have "\<not> prefix k (drop (i - p) (drop p s))" by blast
    with i show "\<not> occurs_at s k i" by (simp add: occurs_at_def)
  qed
  with j eq show ?thesis
    by (intro exI [of _ "p + j"]) (simp add: occurs_at_def add.commute)
qed

lemma occurrences_from_none:
  assumes "\<forall>i. p \<le> i \<and> i < length s \<longrightarrow> \<not> occurs_at s k i"
  shows "occurrences_from s k p = 0"
  using assms by (simp add: occurrences_from_def filter_empty_conv)

lemma occurrences_from_step:
  assumes "p \<le> j" "j < length s" "occurs_at s k j"
    and "\<forall>i. p \<le> i \<and> i < j \<longrightarrow> \<not> occurs_at s k i"
  shows "occurrences_from s k p = Suc (occurrences_from s k (Suc j))"
proof -
  have "[p..<length s] = [p..<j] @ j # [Suc j..<length s]"
    using assms(1,2) by (metis le_add_diff_inverse less_imp_le_nat upt_add_eq_append upt_conv_Cons)
  moreover have "filter (occurs_at s k) [p..<j] = []"
    using assms(4) by (simp add: filter_empty_conv)
  ultimately show ?thesis
    using assms(3) by (simp add: occurrences_from_def)
qed

lemma count_loop_eq:
  assumes "k \<noteq> []"
  shows "count_loop s k (int p - 1) c = Some (c + occurrences_from s k p)"
proof (induction "length s - p" arbitrary: p c rule: less_induct)
  case less
  show ?case
  proof (cases "indexOf s k (int p) = - 1")
    case True
    then have "occurrences_from s k p = 0"
      using indexOf_none [OF assms True] by (intro occurrences_from_none) blast
    with True show ?thesis
      by (subst count_loop.simps) simp
  next
    case False
    from indexOf_some [OF assms False]
    obtain j where j: "indexOf s k (int p) = int j" "p \<le> j" "j < length s" "occurs_at s k j"
      "\<forall>i. p \<le> i \<and> i < j \<longrightarrow> \<not> occurs_at s k i"
      by blast
    have "length s - Suc j < length s - p"
      using j(2,3) by simp
    from less [OF this, of "c + 1"]
    have "count_loop s k (int j) (c + 1) = Some (c + 1 + occurrences_from s k (Suc j))"
      by simp
    moreover have "occurrences_from s k p = Suc (occurrences_from s k (Suc j))"
      by (rule occurrences_from_step [OF j(2-5)])
    ultimately show ?thesis
      using False j(1) by (subst count_loop.simps) simp
  qed
qed

lemma count_loop_start:
  "k \<noteq> [] \<Longrightarrow> count_loop s k (- 1) 0 = Some (occurrences s k)"
  using count_loop_eq [of k s 0 0] by (simp add: occurrences_def)

lemma toLowerCase_Nil_iff: "toLowerCase s = [] \<longleftrightarrow> s = []"
  by (simp add: toLowerCase_def)

lemma calculateKeywordDensityScore_eq:
  "calculateKeywordDensityScore content keyword =
     Some (case content of
        Given c \<Rightarrow>
          if c = [] \<or> keyword = [] \<or> words (toLowerCase c) = [] then 0
          else if 1 \<le> density c keyword \<and> density c keyword \<le> 3 then 100
          else if 0 < density c keyword \<and> density c keyword < 1 then 70
          else if 3 < density c keyword \<and> density c keyword \<le> 5 then 50
          else if 5 < density c keyword then 30
          else 0
      | _ \<Rightarrow> 0)"
  by (auto simp: calculateKeywordDensityScore_def count_loop_start toLowerCase_Nil_iff
      density_def density_score_def Let_def split: optional.splits)


text \<open>
  The count is not aware of word boundaries, and places that overlap count each.
\<close>

lemma occurrences_inside_words: "occurrences ''cat concatenate'' ''cat'' = 2"
  by code_simp

lemma occurrences_overlap: "occurrences ''aaa'' ''aa'' = 2"
  by code_simp


subsection \<open>The range of the scores\<close>

text \<open>
  Every score that is returned lies between 0 and 100, the overall score on the factor
  maps of lemma \<open>calculateSeoScore_range\<close>.
\<close>

lemma length_band_bounds: "0 \<le> length_band a b c d n \<and> length_band a b c d n \<le> 100"
  by (simp add: length_band_def)

lemma band_score_range:
  assumes "0 \<le> l \<and> l \<le> 100"
  shows "0 \<le> (if ks = [] then l else Math_round ((l + (if hit then 100 else 0)) / 2))
    \<and> (if ks = [] then l else Math_round ((l + (if hit then 100 else 0)) / 2)) \<le> 100"
proof (cases "ks = []")
  case True
  with assms show ?thesis by simp
next
  case False
  from assms have "0 \<le> (l + (if hit then 100 else 0)) / 2"
    and "(l + (if hit then 100 else 0)) / 2 \<le> 100"
    by simp_all
  then have "0 \<le> Math_round ((l + (if hit then 100 else 0)) / 2)
    \<and> Math_round ((l + (if hit then 100 else 0)) / 2) \<le> 100"
    by (rule Math_round_range)
  with False show ?thesis by simp
qed

lemma calculateTitleScore_range:
  "0 \<le> calculateTitleScore title keywords \<and> calculateTitleScore title keywords \<le> 100"
proof (cases title)
  case (Given t)
  show ?thesis
    using band_score_range [OF length_band_bounds [of 50 60 40 70 "length t"],
        where ks = "keywords" and hit = "keyword_occurs t keywords"]
    by (simp add: calculateTitleScore_eq Given)
qed (simp_all add: calculateTitleScore_eq)

lemma calculateDescriptionScore_range:
  "0 \<le> calculateDescriptionScore description keywords
   \<and> calculateDescriptionScore description keywords \<le> 100"
proof (cases description)
  case (Given d)
  show ?thesis
    using band_score_range [OF length_band_bounds [of 150 160 120 170 "length d"],
        where ks = "keywords" and hit = "keyword_occurs d keywords"]
    by (simp add: calculateDescriptionScore_eq Given)
qed (simp_all add: calculateDescriptionScore_eq)

lemma calculateHeadingsScore_range:
  "calculateHeadingsScore headings = Inr s \<Longrightarrow> 0 \<le> s \<and> s \<le> 100"
  by (auto simp: calculateHeadingsScore_def Math_max_def Math_min_def Let_def
      split: if_splits jsval.splits sum.splits)

lemma calculateContentScore_range:
  "0 \<le> calculateContentScore content minWords \<and> calculateContentScore content minWords \<le> 100"
  by (simp add: calculateContentScore_def Let_def split: optional.splits)

lemma calculateKeywordDensityScore_range:
  "calculateKeywordDensityScore content keyword = Some s \<Longrightarrow> s \<in> {0, 30, 50, 70, 100}"
  by (auto simp: calculateKeywordDensityScore_eq split: optional.splits if_splits)

section \<open>Properties of the persistence store\<close>

lemma PROJECTS_key [simp]:
  "key_name STORAGE_KEYS_PROJECTS = ''seo-toolkit-projects''"
  "key_read STORAGE_KEYS_PROJECTS s = projects_text s"
  "key_write STORAGE_KEYS_PROJECTS v s = s\<lparr>projects_text := v\<rparr>"
  by (simp_all add: STORAGE_KEYS_PROJECTS_def)

lemma RECENT_ANALYSES_key [simp]:
  "key_name STORAGE_KEYS_RECENT_ANALYSES = ''seo-toolkit-recent-analyses''"
  "key_read STORAGE_KEYS_RECENT_ANALYSES s = recent_analyses_text s"
  "key_write STORAGE_KEYS_RECENT_ANALYSES v s = s\<lparr>recent_analyses_text := v\<rparr>"
  by (simp_all add: STORAGE_KEYS_RECENT_ANALYSES_def)

lemma SAVED_KEYWORDS_key [simp]:
  "key_name STORAGE_KEYS_SAVED_KEYWORDS = ''seo-toolkit-saved-keywords''"
  "key_read STORAGE_KEYS_SAVED_KEYWORDS s = saved_keywords_text s"
  "key_write STORAGE_KEYS_SAVED_KEYWORDS v s = s\<lparr>saved_keywords_text := v\<rparr>"
  by (simp_all add: STORAGE_KEYS_SAVED_KEYWORDS_def)

lemma SAVED_CONTENT_key [simp]:
  "key_name STORAGE_KEYS_SAVED_CONTENT = ''seo-toolkit-saved-content''"
  "key_read STORAGE_KEYS_SAVED_CONTENT s = saved_content_text s"
  "key_write STORAGE_KEYS_SAVED_CONTENT v s = s\<lparr>saved_content_text := v\<rparr>"
  by (simp_all add: STORAGE_KEYS_SAVED_CONTENT_def)

lemma COMPETITOR_ANALYSES_key [simp]:
  "key_name STORAGE_KEYS_COMPETITOR_ANALYSES = ''seo-toolkit-competitor-analyses''"
  "key_read STORAGE_KEYS_COMPETITOR_ANALYSES s = competitor_analyses_text s"
  "key_write STORAGE_KEYS_COMPETITOR_ANALYSES v s = s\<lparr>competitor_analyses_text := v\<rparr>"
  by (simp_all add: STORAGE_KEYS_COMPETITOR_ANALYSES_def)

lemma SETTINGS_key [simp]:
  "key_name STORAGE_KEYS_SETTINGS = ''seo-toolkit-settings''"
  "key_read STORAGE_KEYS_SETTINGS s = settings_text s"
  "key_write STORAGE_KEYS_SETTINGS v s = s\<lparr>settings_text := v\<rparr>"
  by (simp_all add: STORAGE_KEYS_SETTINGS_def)

lemma CREDENTIALS_key [simp]:
  "key_name STORAGE_KEYS_CREDENTIALS = ''seo-toolkit-credentials''"
  "key_read STORAGE_KEYS_CREDENTIALS s = credentials_text s"
  "key_write STORAGE_KEYS_CREDENTIALS v s = s\<lparr>credentials_text := v\<rparr>"
  by (simp_all add: STORAGE_KEYS_CREDENTIALS_def)

lemma API_ENDPOINTS_key [simp]:
  "key_name STORAGE_KEYS_API_ENDPOINTS = ''seo-toolkit-api-endpoints''"
  "key_read STORAGE_KEYS_API_ENDPOINTS s = api_endpoints_text s"
  "key_write STORAGE_KEYS_API_ENDPOINTS v s = s\<lparr>api_endpoints_text := v\<rparr>"
  by (simp_all add: STORAGE_KEYS_API_ENDPOINTS_def)

lemma findIndex_nonneg_iff: "findIndex P xs \<ge> 0 \<longleftrightarrow> list_ex P xs"
  by (simp add: findIndex_def)

lemma update_at_findIndex:
  "list_ex P xs \<Longrightarrow> xs[nat (findIndex P xs) := y] = replace_first P y xs"
  by (induction xs) (auto simp: findIndex_def)

lemma length_replace_first: "length (replace_first P y xs) = length xs"
  by (induction xs) auto

lemma replace_first_position:
  "\<not> list_ex P pre \<Longrightarrow> P old \<Longrightarrow> replace_first P y (pre @ old # post) = pre @ y # post"
  by (induction pre) auto

text \<open>Reading changes nothing but the console.\<close>

lemma getFromStorage_returns: "\<exists>v. fst (getFromStorage k d w) = Inr v"
  by (auto simp: getFromStorage_def split: sum.splits option.splits item.splits)

lemma getFromStorage_world:
  "\<exists>log. snd (getFromStorage k d w) = w\<lparr>console := console w @ log\<rparr>"
proof (cases "snd (getFromStorage k d w) = w")
  case True
  then show ?thesis by (intro exI [of _ "[]"]) simp
next
  case False
  then show ?thesis
    by (auto simp: getFromStorage_def console_error_def split: sum.splits option.splits item.splits if_splits)
qed

lemma getFromStorage_cases:
  obtains v log where "getFromStorage k d w = (Inr v, w\<lparr>console := console w @ log\<rparr>)"
  using getFromStorage_returns [of k d w] getFromStorage_world [of k d w]
  by (metis prod.collapse)

lemma setInStorage_ok:
  "writes_succeed w \<Longrightarrow>
   setInStorage k v w = (Inr (), w\<lparr>localStorage := key_write k (Some (Doc v)) (localStorage w)\<rparr>)"
  by (simp add: writes_succeed_def setInStorage_def setItem_def Let_def)

lemma writes_succeed_console [simp]:
  "writes_succeed (w\<lparr>console := c\<rparr>) = writes_succeed w"
  by (simp add: writes_succeed_def)

lemma writes_succeed_reads [simp]:
  "writes_succeed (w\<lparr>reads := n\<rparr>) = writes_succeed w"
  by (simp add: writes_succeed_def)

lemma writes_succeed_localStorage [simp]:
  "writes_succeed (w\<lparr>localStorage := s\<rparr>) = writes_succeed w"
  by (simp add: writes_succeed_def)

lemma saveProject_stored:
  assumes "writes_succeed w" and "fst (getProjects w) = Inr xs"
  shows "fst (saveProject p w) = Inr ()
    \<and> projects_text (localStorage (snd (saveProject p w))) =
      Some (Doc (if list_ex (\<lambda>x. project_id x = project_id p) xs
                 then replace_first (\<lambda>x. project_id x = project_id p)
                        (p\<lparr>project_dateUpdated := clock w (reads w)\<rparr>) xs
                 else xs @ [p\<lparr>project_dateCreated := clock w (reads w),
                              project_dateUpdated := clock w (Suc (reads w))\<rparr>]))"
proof -
  obtain v log where g: "getFromStorage STORAGE_KEYS_PROJECTS [] w = (Inr v, w\<lparr>console := console w @ log\<rparr>)"
    by (rule getFromStorage_cases)
  with assms(2) have v: "v = xs" by (simp add: getProjects_def)
  show ?thesis
    using assms(1)
    by (simp add: saveProject_def getProjects_def g v now_def Let_def findIndex_nonneg_iff
        update_at_findIndex setInStorage_ok)
qed

lemma saveAnalysisResult_stored:
  assumes "writes_succeed w" and "fst (getRecentAnalyses w) = Inr xs"
  shows "fst (saveAnalysisResult a w) = Inr ()
    \<and> recent_analyses_text (localStorage (snd (saveAnalysisResult a w))) =
      Some (Doc (if list_ex (\<lambda>x. analysis_id x = analysis_id a) xs
                 then replace_first (\<lambda>x. analysis_id x = analysis_id a) a xs
                 else if length (a # xs) > 10 then butlast (a # xs) else a # xs))"
proof -
  obtain v log where g: "getFromStorage STORAGE_KEYS_RECENT_ANALYSES [] w = (Inr v, w\<lparr>console := console w @ log\<rparr>)"
    by (rule getFromStorage_cases)
  with assms(2) have v: "v = xs" by (simp add: getRecentAnalyses_def)
  show ?thesis
    using assms(1)
    by (simp add: saveAnalysisResult_def getRecentAnalyses_def g v Let_def findIndex_nonneg_iff
        update_at_findIndex setInStorage_ok)
qed

lemma saveKeyword_stored:
  assumes "writes_succeed w" and "fst (getSavedKeywords w) = Inr xs"
  shows "fst (saveKeyword k w) = Inr ()
    \<and> saved_keywords_text (localStorage (snd (saveKeyword k w))) =
      Some (Doc (if list_ex (\<lambda>x. keyword_id x = keyword_id k) xs
                 then replace_first (\<lambda>x. keyword_id x = keyword_id k) k xs
                 else xs @ [k\<lparr>keyword_dateAdded := clock w (reads w)\<rparr>]))"
proof -
  obtain v log where g: "getFromStorage STORAGE_KEYS_SAVED_KEYWORDS [] w = (Inr v, w\<lparr>console := console w @ log\<rparr>)"
    by (rule getFromStorage_cases)
  with assms(2) have v: "v = xs" by (simp add: getSavedKeywords_def)
  show ?thesis
    using assms(1)
    by (simp add: saveKeyword_def getSavedKeywords_def g v now_def Let_def findIndex_nonneg_iff
        update_at_findIndex setInStorage_ok)
qed

lemma saveContent_stored:
  assumes "writes_succeed w" and "fst (getSavedContent w) = Inr xs"
  shows "fst (saveContent c w) = Inr ()
    \<and> saved_content_text (localStorage (snd (saveContent c w))) =
      Some (Doc (if list_ex (\<lambda>x. content_id x = content_id c) xs
                 then replace_first (\<lambda>x. content_id x = content_id c)
                        (c\<lparr>content_dateUpdated := clock w (reads w)\<rparr>) xs
                 else xs @ [c\<lparr>content_dateCreated := clock w (reads w),
                              content_dateUpdated := clock w (Suc (reads w))\<rparr>]))"
proof -
  obtain v log where g: "getFromStorage STORAGE_KEYS_SAVED_CONTENT [] w = (Inr v, w\<lparr>console := console w @ log\<rparr>)"
    by (rule getFromStorage_cases)
  with assms(2) have v: "v = xs" by (simp add: getSavedContent_def)
  show ?thesis
    using assms(1)
    by (simp add: saveContent_def getSavedContent_def g v now_def Let_def findIndex_nonneg_iff
        update_at_findIndex setInStorage_ok)
qed

lemma saveCompetitorAnalysis_stored:
  assumes "writes_succeed w" and "fst (getCompetitorAnalyses w) = Inr xs"
  shows "fst (saveCompetitorAnalysis a w) = Inr ()
    \<and> competitor_analyses_text (localStorage (snd (saveCompetitorAnalysis a w))) =
      Some (Doc (if list_ex (\<lambda>x. competitor_id x = competitor_id a) xs
                 then replace_first (\<lambda>x. competitor_id x = competitor_id a) a xs
                 else xs @ [a\<lparr>competitor_dateCreated := clock w (reads w)\<rparr>]))"
proof -
  obtain v log where g: "getFromStorage STORAGE_KEYS_COMPETITOR_ANALYSES [] w = (Inr v, w\<lparr>console := console w @ log\<rparr>)"
    by (rule getFromStorage_cases)
  with assms(2) have v: "v = xs" by (simp add: getCompetitorAnalyses_def)
  show ?thesis
    using assms(1)
    by (simp add: saveCompetitorAnalysis_def getCompetitorAnalyses_def g v now_def Let_def
        findIndex_nonneg_iff update_at_findIndex setInStorage_ok)
qed

lemma storage_works_writes: "storage_works w \<Longrightarrow> writes_succeed w"
  by (simp add: storage_works_def writes_succeed_def)

lemma getRecentAnalyses_stored:
  "storage_works w \<Longrightarrow> recent_analyses_text (localStorage w) = Some (Doc ys) \<Longrightarrow>
   getRecentAnalyses w = (Inr ys, w)"
  by (simp add: getRecentAnalyses_def getFromStorage_def getItem_def storage_works_def)

lemma saveAnalysisResult_world:
  assumes "storage_works w"
  shows "storage_works (snd (saveAnalysisResult a w))"
proof -
  obtain v log where g: "getFromStorage STORAGE_KEYS_RECENT_ANALYSES [] w = (Inr v, w\<lparr>console := console w @ log\<rparr>)"
    by (rule getFromStorage_cases)
  have ws: "writes_succeed w" by (rule storage_works_writes [OF assms])
  show ?thesis
    using assms ws
    by (simp add: saveAnalysisResult_def getRecentAnalyses_def g Let_def setInStorage_ok
        storage_works_def)
qed

lemma saveAnalysisResult_new:
  assumes w: "storage_works w" and xs: "fst (getRecentAnalyses w) = Inr xs"
    and new: "analysis_id a \<notin> set (map analysis_id xs)" and len: "length xs \<le> 10"
  shows "fst (getRecentAnalyses (snd (saveAnalysisResult a w))) = Inr (take 10 (a # xs))"
proof -
  have nf: "\<not> list_ex (\<lambda>x. analysis_id x = analysis_id a) xs"
    using new by (induction xs) auto
  have "(if length (a # xs) > 10 then butlast (a # xs) else a # xs) = take 10 (a # xs)"
    using len by (cases "length xs = 10") (simp_all add: butlast_conv_take)
  with saveAnalysisResult_stored [OF storage_works_writes [OF w] xs, of a] nf
  have "recent_analyses_text (localStorage (snd (saveAnalysisResult a w))) =
      Some (Doc (take 10 (a # xs)))"
    by simp
  with saveAnalysisResult_world [OF w, of a] show ?thesis
    by (simp add: getRecentAnalyses_stored)
qed

lemma take_append_take: "take n (ys @ take n zs) = take n (ys @ zs)"
  by (simp add: min_def)

lemma save_all_new:
  "storage_works w \<Longrightarrow> fst (getRecentAnalyses w) = Inr xs \<Longrightarrow> length xs \<le> 10 \<Longrightarrow>
   distinct (map analysis_id as) \<Longrightarrow>
   set (map analysis_id as) \<inter> set (map analysis_id xs) = {} \<Longrightarrow>
   storage_works (save_all as w)
   \<and> fst (getRecentAnalyses (save_all as w)) = Inr (take 10 (rev as @ xs))"
proof (induction as arbitrary: w xs)
  case Nil
  then show ?case by (simp add: save_all_def)
next
  case (Cons a as)
  let ?w = "snd (saveAnalysisResult a w)"
  have new: "analysis_id a \<notin> set (map analysis_id xs)"
    using Cons.prems(5) by auto
  have 1: "storage_works ?w"
    by (rule saveAnalysisResult_world [OF Cons.prems(1)])
  have 2: "fst (getRecentAnalyses ?w) = Inr (take 10 (a # xs))"
    by (rule saveAnalysisResult_new [OF Cons.prems(1,2) new Cons.prems(3)])
  have 3: "length (take 10 (a # xs)) \<le> 10" by simp
  have 4: "distinct (map analysis_id as)"
    using Cons.prems(4) by simp
  have sub: "set (map analysis_id (take 10 (a # xs))) \<subseteq> set (map analysis_id (a # xs))"
    by (metis set_take_subset take_map)
  have "set (map analysis_id as) \<inter> set (map analysis_id (a # xs)) = {}"
    using Cons.prems(4,5) by auto
  with sub
  have 5: "set (map analysis_id as) \<inter> set (map analysis_id (take 10 (a # xs))) = {}"
    by blast
  from Cons.IH [OF 1 2 3 4 5]
  have "storage_works (save_all as ?w)"
    and "fst (getRecentAnalyses (save_all as ?w)) = Inr (take 10 (rev as @ take 10 (a # xs)))"
    by simp_all
  moreover have "save_all (a # as) w = save_all as ?w"
    by (simp add: save_all_def)
  moreover have "take 10 (rev as @ take 10 (a # xs)) = take 10 (rev (a # as) @ xs)"
    by (simp only: take_append_take rev.simps append_assoc append_Cons append_Nil)
  ultimately show ?case by simp
qed

text \<open>
  C3. Where storage works and the collection of analyses reads as empty, saving eleven
  entities with pairwise distinct ids, one after the other, leaves exactly ten entries: the
  entities in the reverse of the order of their saving, the most recent first, without the
  one saved first.
\<close>

theorem saveAnalysisResult_keeps_ten:
  assumes "storage_works w" and "fst (getRecentAnalyses w) = Inr []"
    and "length as = 11" and "distinct (map analysis_id as)"
  shows "fst (getRecentAnalyses (save_all as w)) = Inr (rev (tl as))
    \<and> length (rev (tl as)) = 10"
proof -
  from save_all_new [OF assms(1,2) _ assms(4)]
  have "fst (getRecentAnalyses (save_all as w)) = Inr (take 10 (rev as))"
    by simp
  moreover have "take 10 (rev as) = rev (tl as)"
    using assms(3) by (simp add: take_rev drop_Suc)
  ultimately show ?thesis using assms(3) by simp
qed

theorem saveAnalysisResult_keeps_ten_witness:
  "storage_works browser \<and> fst (getRecentAnalyses browser) = Inr []
   \<and> length eleven_analyses = 11 \<and> distinct (map analysis_id eleven_analyses)
   \<and> fst (getRecentAnalyses (save_all eleven_analyses browser)) =
       Inr (map analysis_with_id
         [''eleven'', ''ten'', ''nine'', ''eight'', ''seven'', ''six'', ''five'', ''four'', ''three'',
          ''two''])"
proof -
  have 1: "storage_works browser"
    by (simp add: storage_works_def browser_def)
  have 2: "fst (getRecentAnalyses browser) = Inr []"
    by (simp add: getRecentAnalyses_def getFromStorage_def getItem_def browser_def empty_store_def)
  have 3: "length eleven_analyses = 11"
    by (simp add: eleven_analyses_def)
  have 4: "distinct (map analysis_id eleven_analyses)"
    by (simp add: eleven_analyses_def analysis_with_id_def)
  from saveAnalysisResult_keeps_ten [OF 1 2 3 4] 1 2 3 4 show ?thesis
    by (simp add: eleven_analyses_def)
qed

subsection \<open>Replacing in place, appending, inserting in front\<close>

text \<open>
  C4, as amended. Where there is a window and every write succeeds, each of the five
  operations stores the collection it read, changed as follows. If the collection holds an
  entity with the id of the one saved, the first such entity is replaced where it stands
  (the length and every other entity stay): by the saved entity with \<^verbatim>\<open>dateUpdated\<close>
  stamped for \<^verbatim>\<open>saveProject\<close> and \<^verbatim>\<open>saveContent\<close>, by the saved entity as given for
  \<^verbatim>\<open>saveKeyword\<close>, \<^verbatim>\<open>saveCompetitorAnalysis\<close> and \<^verbatim>\<open>saveAnalysisResult\<close>. Otherwise
  \<^verbatim>\<open>saveProject\<close> and \<^verbatim>\<open>saveContent\<close> append it stamped with \<^verbatim>\<open>dateCreated\<close> and
  \<^verbatim>\<open>dateUpdated\<close>, \<^verbatim>\<open>saveKeyword\<close> appends it stamped with \<^verbatim>\<open>dateAdded\<close>,
  \<^verbatim>\<open>saveCompetitorAnalysis\<close> appends it stamped with \<^verbatim>\<open>dateCreated\<close>, and
  \<^verbatim>\<open>saveAnalysisResult\<close> puts it, as given, in front and drops the last entry when
  that makes more than ten.
\<close>

theorem save_replaces_or_inserts:
  assumes "writes_succeed w"
  shows
    "(fst (getProjects w) = Inr ps \<longrightarrow>
        fst (saveProject p w) = Inr ()
        \<and> projects_text (localStorage (snd (saveProject p w))) =
          Some (Doc (if list_ex (\<lambda>x. project_id x = project_id p) ps
                     then replace_first (\<lambda>x. project_id x = project_id p)
                            (p\<lparr>project_dateUpdated := clock w (reads w)\<rparr>) ps
                     else ps @ [p\<lparr>project_dateCreated := clock w (reads w),
                                  project_dateUpdated := clock w (Suc (reads w))\<rparr>])))
     \<and> (fst (getSavedContent w) = Inr cs \<longrightarrow>
        fst (saveContent c w) = Inr ()
        \<and> saved_content_text (localStorage (snd (saveContent c w))) =
          Some (Doc (if list_ex (\<lambda>x. content_id x = content_id c) cs
                     then replace_first (\<lambda>x. content_id x = content_id c)
                            (c\<lparr>content_dateUpdated := clock w (reads w)\<rparr>) cs
                     else cs @ [c\<lparr>content_dateCreated := clock w (reads w),
                                  content_dateUpdated := clock w (Suc (reads w))\<rparr>])))
     \<and> (fst (getSavedKeywords w) = Inr ks \<longrightarrow>
        fst (saveKeyword k w) = Inr ()
        \<and> saved_keywords_text (localStorage (snd (saveKeyword k w))) =
          Some (Doc (if list_ex (\<lambda>x. keyword_id x = keyword_id k) ks
                     then replace_first (\<lambda>x. keyword_id x = keyword_id k) k ks
                     else ks @ [k\<lparr>keyword_dateAdded := clock w (reads w)\<rparr>])))
     \<and> (fst (getCompetitorAnalyses w) = Inr qs \<longrightarrow>
        fst (saveCompetitorAnalysis q w) = Inr ()
        \<and> competitor_analyses_text (localStorage (snd (saveCompetitorAnalysis q w))) =
          Some (Doc (if list_ex (\<lambda>x. competitor_id x = competitor_id q) qs
                     then replace_first (\<lambda>x. competitor_id x = competitor_id q) q qs
                     else qs @ [q\<lparr>competitor_dateCreated := clock w (reads w)\<rparr>])))
     \<and> (fst (getRecentAnalyses w) = Inr as \<longrightarrow>
        fst (saveAnalysisResult a w) = Inr ()
        \<and> recent_analyses_text (localStorage (snd (saveAnalysisResult a w))) =
          Some (Doc (if list_ex (\<lambda>x. analysis_id x = analysis_id a) as
                     then replace_first (\<lambda>x. analysis_id x = analysis_id a) a as
                     else if length (a # as) > 10 then butlast (a # as) else a # as)))
     \<and> length (replace_first P y xs) = length xs
     \<and> (\<not> list_ex P pre \<and> P old \<longrightarrow>
          replace_first P y (pre @ old # post) = pre @ y # post)"
  using saveProject_stored [OF assms, of ps p] saveContent_stored [OF assms, of cs c]
    saveKeyword_stored [OF assms, of ks k] saveCompetitorAnalysis_stored [OF assms, of qs q]
    saveAnalysisResult_stored [OF assms, of as a]
    length_replace_first [of P y xs] replace_first_position [of P pre old y post]
  by blast

lemma stocked_browser_writes: "writes_succeed stocked_browser"
  by (simp add: writes_succeed_def stocked_browser_def browser_def)

lemma stocked_browser_simps:
  "has_window stocked_browser"
  "read_fault stocked_browser name = None"
  "clock stocked_browser n = ''T'' @ replicate n CHR ''+''"
  "reads stocked_browser = 0"
  "projects_text (localStorage stocked_browser) = Some (Doc [project_with_id ''p'', project_with_id ''q''])"
  "recent_analyses_text (localStorage stocked_browser) = Some (Doc [analysis_with_id ''a''])"
  "saved_keywords_text (localStorage stocked_browser) = Some (Doc [keyword_with_id ''k''])"
  by (simp_all add: stocked_browser_def browser_def empty_store_def)

lemma stocked_browser_reads:
  "fst (getProjects stocked_browser) = Inr [project_with_id ''p'', project_with_id ''q'']"
  "fst (getRecentAnalyses stocked_browser) = Inr [analysis_with_id ''a'']"
  "fst (getSavedKeywords stocked_browser) = Inr [keyword_with_id ''k'']"
  by (simp_all add: getProjects_def getRecentAnalyses_def getSavedKeywords_def
      getFromStorage_def getItem_def stocked_browser_simps)

theorem save_replaces_or_inserts_witness:
  "writes_succeed stocked_browser
   \<and> fst (getProjects stocked_browser) = Inr [project_with_id ''p'', project_with_id ''q'']
   \<and> projects_text (localStorage (snd (saveProject
         ((project_with_id ''q'')\<lparr>project_name := ''Blog''\<rparr>) stocked_browser))) =
       Some (Doc [project_with_id ''p'',
                  (project_with_id ''q'')\<lparr>project_name := ''Blog'', project_dateUpdated := ''T''\<rparr>])
   \<and> projects_text (localStorage (snd (saveProject (project_with_id ''r'') stocked_browser))) =
       Some (Doc [project_with_id ''p'', project_with_id ''q'',
                  (project_with_id ''r'')\<lparr>project_dateCreated := ''T'',
                                           project_dateUpdated := ''T+''\<rparr>])"
proof -
  note stored = save_replaces_or_inserts [OF stocked_browser_writes, THEN conjunct1,
      rule_format, OF stocked_browser_reads(1)]
  have "projects_text (localStorage (snd (saveProject
         ((project_with_id ''q'')\<lparr>project_name := ''Blog''\<rparr>) stocked_browser))) =
       Some (Doc [project_with_id ''p'',
                  (project_with_id ''q'')\<lparr>project_name := ''Blog'', project_dateUpdated := ''T''\<rparr>])"
    using stored [where p = "(project_with_id ''q'')\<lparr>project_name := ''Blog''\<rparr>"]
    by (simp add: stocked_browser_simps project_with_id_def)
  moreover
  have "projects_text (localStorage (snd (saveProject (project_with_id ''r'') stocked_browser))) =
       Some (Doc [project_with_id ''p'', project_with_id ''q'',
                  (project_with_id ''r'')\<lparr>project_dateCreated := ''T'',
                                           project_dateUpdated := ''T+''\<rparr>])"
    using stored [where p = "project_with_id ''r''"]
    by (simp add: stocked_browser_simps project_with_id_def)
  ultimately show ?thesis
    using stocked_browser_writes stocked_browser_reads(1) by simp
qed

text \<open>
  The claim as first stated fails: a new analysis goes in front of the old one and is not
  stamped, and a keyword saved over its old version is stored as given, its date not that
  of the clock.
\<close>

theorem save_not_uniform_counterexample:
  "recent_analyses_text (localStorage (snd (saveAnalysisResult (analysis_with_id ''b'')
       stocked_browser))) =
     Some (Doc [analysis_with_id ''b'', analysis_with_id ''a''])
   \<and> saved_keywords_text (localStorage (snd (saveKeyword
       ((keyword_with_id ''k'')\<lparr>keyword_volume := Some 10\<rparr>) stocked_browser))) =
     Some (Doc [(keyword_with_id ''k'')\<lparr>keyword_volume := Some 10\<rparr>])
   \<and> keyword_dateAdded ((keyword_with_id ''k'')\<lparr>keyword_volume := Some 10\<rparr>)
       \<noteq> clock stocked_browser (reads stocked_browser)"
  using saveAnalysisResult_stored [OF stocked_browser_writes stocked_browser_reads(2),
      of "analysis_with_id ''b''"]
    saveKeyword_stored [OF stocked_browser_writes stocked_browser_reads(3),
      of "(keyword_with_id ''k'')\<lparr>keyword_volume := Some 10\<rparr>"]
  by (simp add: stocked_browser_simps analysis_with_id_def keyword_with_id_def)

subsection \<open>Failures of reading and of writing\<close>



lemma write_refused_console [simp]:
  "write_refused k e (w\<lparr>console := c\<rparr>) = write_refused k e w"
  by (simp add: write_refused_def)

lemma write_refused_reads [simp]:
  "write_refused k e (w\<lparr>reads := n\<rparr>) = write_refused k e w"
  by (simp add: write_refused_def)






lemmas get_defs =
  getProjects_def getRecentAnalyses_def getSavedKeywords_def getSavedContent_def
  getCompetitorAnalyses_def getCredentials_def getApiEndpoints_def getUserSettings_def

lemmas save_defs =
  saveProject_def saveAnalysisResult_def saveKeyword_def saveContent_def
  saveCompetitorAnalysis_def saveCredentials_def saveApiEndpoints_def saveUserSettings_def




subsection \<open>Without a window\<close>

lemma getFromStorage_no_window:
  "\<not> has_window w \<Longrightarrow> getFromStorage k d w = (Inr d, w)"
  by (simp add: getFromStorage_def)

lemma setInStorage_no_window:
  "\<not> has_window w \<Longrightarrow> setInStorage k v w = (Inr (), w)"
  by (simp add: setInStorage_def)

text \<open>
  C10. Without a window every \<^verbatim>\<open>get\<close> operation returns its default and leaves the
  world as it is, and every \<^verbatim>\<open>save\<close> operation returns without an exception, stores
  nothing and prints nothing.
\<close>

theorem no_window_noop:
  assumes "\<not> has_window w"
  shows "getProjects w = (Inr [], w)
   \<and> getRecentAnalyses w = (Inr [], w)
   \<and> getSavedKeywords w = (Inr [], w)
   \<and> getSavedContent w = (Inr [], w)
   \<and> getCompetitorAnalyses w = (Inr [], w)
   \<and> getCredentials w = (Inr default_credentials, w)
   \<and> getApiEndpoints w = (Inr default_api_endpoints, w)
   \<and> getUserSettings w = (Inr default_user_settings, w)
   \<and> returns_silently w (saveProject p w)
   \<and> returns_silently w (saveAnalysisResult a w)
   \<and> returns_silently w (saveKeyword k w)
   \<and> returns_silently w (saveContent c w)
   \<and> returns_silently w (saveCompetitorAnalysis q w)
   \<and> returns_silently w (saveCredentials cr w)
   \<and> returns_silently w (saveApiEndpoints ep w)
   \<and> returns_silently w (saveUserSettings us w)"
  using assms
  by (simp add: get_defs save_defs getFromStorage_no_window setInStorage_no_window
      returns_silently_def now_def findIndex_def Let_def)

theorem no_window_noop_witness:
  "\<not> has_window server
   \<and> getProjects server = (Inr [], server)
   \<and> getUserSettings server = (Inr default_user_settings, server)
   \<and> fst (saveProject (project_with_id ''p'') server) = Inr ()
   \<and> localStorage (snd (saveProject (project_with_id ''p'') server)) = empty_store
   \<and> console (snd (saveProject (project_with_id ''p'') server)) = []"
proof -
  have s: "\<not> has_window server"
    by (simp add: server_def)
  have b: "localStorage server = empty_store" "console server = []"
    by (simp_all add: server_def browser_def)
  from no_window_noop [OF s, of "project_with_id ''p''"]
  have "getProjects server = (Inr [], server)"
    and "getUserSettings server = (Inr default_user_settings, server)"
    and "returns_silently server (saveProject (project_with_id ''p'') server)"
    by blast+
  with s b show ?thesis
    by (simp add: returns_silently_def)
qed

end
